theory Spec2Isabelle
  imports Main "HOL-Library.AList"
begin

section \<open>contrib/iex/api: GetBars\<close>

text \<open>
  The IEX batch endpoint client of \<^verbatim>\<open>src/contrib/iex/api/api.go\<close>.  The function
  \<^verbatim>\<open>GetBars\<close> calls itself on three paths: after HTTP 429, after a response whose
  chart for the first symbol is null, and twice (on the two halves of the symbol list)
  after HTTP 451.  The network is a parameter of the model: a function from the number
  of HTTP calls made so far and the request to the reply, so that every sequence of
  replies is covered.  The package variable \<^verbatim>\<open>symbolsExcluded\<close> is threaded through
  as part of an explicit state, with the number of HTTP calls made and the errors
  logged.  Two things are left out: \<^verbatim>\<open>url.Parse\<close> cannot fail on either value of
  \<^verbatim>\<open>base\<close>, and the one-second waits before a retry only pass time.  A Go panic
  (an index out of range, a nil dereference) is a result of its own in the model, which
  every calling \<^verbatim>\<open>GetBars\<close> passes on at once.
\<close>

type_synonym symbol = string

text \<open>
  \<^verbatim>\<open>ChartResponse\<close>: two slices that are \<^verbatim>\<open>nil\<close> (\<open>None\<close>) or hold bars.  The
  fields of a bar play no role in \<^verbatim>\<open>GetBars\<close>, so the bar type is a parameter.
\<close>

record 'c ChartResponse =
  Chart :: "'c list option"
  IntradayPrices :: "'c list option"

text \<open>
  \<^verbatim>\<open>GetBarsResponse = map[string]*ChartResponse\<close>: an association list with distinct
  keys stands for the Go map; a \<^verbatim>\<open>nil\<close> pointer stored under a key is \<open>None\<close>.
\<close>

type_synonym 'c GetBarsResponse = "(symbol \<times> 'c ChartResponse option) list"

text \<open>The query string built by \<^verbatim>\<open>GetBars\<close> (token and chartIEXOnly are constant).\<close>

record request =
  req_symbols :: "symbol list"
  req_types :: string
  req_range :: string
  req_chartLast :: "int option"

text \<open>
  What \<^verbatim>\<open>http.Get\<close>, \<^verbatim>\<open>io.ReadAll\<close> and \<^verbatim>\<open>json.Unmarshal\<close> give: either the
  transport fails, or there is a status code with its status line, the body
  (\<open>None\<close> when reading it fails) and the decoding of the body (\<open>None\<close> when it is
  not valid JSON for the response type).
\<close>

datatype 'c http_reply =
  GetFailed string
| Reply nat string "string option" "'c GetBarsResponse option"

datatype gb_error =
  UnsupportedRange string
| HttpGetError string
| RetryCountExceeded
| ReadAllError
| OTCError string string symbol
| StatusBodyError string string
| PanicNilDereference
| PanicIndexOutOfRange

record world =
  symbolsExcluded :: "symbol set"
  calls :: nat
  errlog :: "gb_error list"

type_synonym 'c network = "nat \<Rightarrow> request \<Rightarrow> 'c http_reply"

definition SupportedRange :: "string \<Rightarrow> bool" where
  "SupportedRange r =
     (r = ''5y'' \<or> r = ''2y'' \<or> r = ''1y'' \<or> r = ''ytd'' \<or> r = ''6m'' \<or> r = ''3m''
      \<or> r = ''1m'' \<or> r = ''1d'' \<or> r = ''date'' \<or> r = ''dynamic'')"

definition StatusTooManyRequests :: nat where
  "StatusTooManyRequests = 429"

definition StatusUnavailableForLegalReasons :: nat where
  "StatusUnavailableForLegalReasons = 451"

definition build_request :: "symbol list \<Rightarrow> string \<Rightarrow> int option \<Rightarrow> request" where
  "build_request symbols barRange limit =
     \<lparr> req_symbols = symbols,
       req_types = (if barRange = ''1d'' then ''intraday-prices'' else ''chart''),
       req_range = barRange,
       req_chartLast = (case limit of None \<Rightarrow> None
                        | Some l \<Rightarrow> if l > 0 then Some l else None) \<rparr>"

text \<open>\<^verbatim>\<open>for k, v := range *r { resp[k] = v }\<close>\<close>

definition copy_into :: "'c GetBarsResponse \<Rightarrow> 'c GetBarsResponse \<Rightarrow> 'c GetBarsResponse" where
  "copy_into r resp = foldl (\<lambda>m (k, v). AList.update k v m) resp r"

text \<open>
  \<^verbatim>\<open>if err != nil { log.Error(err.Error()) } else { for k, v := range *r { resp[k] = v } }\<close>
\<close>

definition absorb ::
  "gb_error + 'c GetBarsResponse \<Rightarrow> 'c GetBarsResponse \<times> gb_error list
     \<Rightarrow> 'c GetBarsResponse \<times> gb_error list" where
  "absorb r acc =
     (case r of Inl e \<Rightarrow> (fst acc, snd acc @ [e])
      | Inr m \<Rightarrow> (copy_into m (fst acc), snd acc))"

text \<open>
  \<^verbatim>\<open>for key, val := range resp { resp[key].Chart = val.IntradayPrices }\<close>: a
  \<^verbatim>\<open>nil\<close> value makes \<^verbatim>\<open>val.IntradayPrices\<close> panic.
\<close>

definition has_nil_value :: "'c GetBarsResponse \<Rightarrow> bool" where
  "has_nil_value resp = list_ex (\<lambda>kv. snd kv = None) resp"

definition intraday_to_chart :: "'c GetBarsResponse \<Rightarrow> 'c GetBarsResponse" where
  "intraday_to_chart resp =
     map (\<lambda>kv. (fst kv, map_option (\<lambda>c. c\<lparr>Chart := IntradayPrices c\<rparr>) (snd kv))) resp"

text \<open>\<^verbatim>\<open>resp[s] != nil && resp[s].Chart == nil\<close>\<close>

definition null_chart :: "'c GetBarsResponse \<Rightarrow> symbol \<Rightarrow> bool" where
  "null_chart resp s =
     (case map_of resp s of
        Some (Some cr) \<Rightarrow> Chart cr = None
      | _ \<Rightarrow> False)"

text \<open>
  A Go panic is not an error value that the caller of \<^verbatim>\<open>GetBars\<close> can log: it unwinds
  through every caller.  A call whose recursive call panics therefore ends with the same
  panic, and does nothing after it.
\<close>

definition is_panic :: "gb_error + 'a \<Rightarrow> bool" where
  "is_panic r = (r = Inl PanicNilDereference \<or> r = Inl PanicIndexOutOfRange)"

text \<open>
  The lexicographic measure of a call: the length of the symbols list it is given, then
  its retry budget.
\<close>

definition GetBars_measure ::
  "'c network \<times> symbol list \<times> string \<times> int option \<times> int \<times> world \<Rightarrow> nat \<times> nat" where
  "GetBars_measure a =
     (case a of (net, symbols, barRange, limit, retries, w) \<Rightarrow> (length symbols, nat retries))"

function GetBars ::
  "'c network \<Rightarrow> symbol list \<Rightarrow> string \<Rightarrow> int option \<Rightarrow> int \<Rightarrow> world
     \<Rightarrow> (gb_error + 'c GetBarsResponse) \<times> world" where
  "GetBars net symbols barRange limit retries w =
     (if symbols = [] then (Inr [], w)
      else
        let syms = filter (\<lambda>sym. sym \<notin> symbolsExcluded w) symbols in
        if \<not> SupportedRange barRange then (Inl (UnsupportedRange barRange), w)
        else
          let w1 = w\<lparr>calls := calls w + 1\<rparr> in
          (case net (calls w) (build_request syms barRange limit) of
             GetFailed e \<Rightarrow> (Inl (HttpGetError e), w1)
           | Reply code status body js \<Rightarrow>
               if code = StatusTooManyRequests then
                 (if retries > 0 then GetBars net syms barRange limit (retries - 1) w1
                  else (Inl RetryCountExceeded, w1))
               else
                 (case body of
                    None \<Rightarrow> (Inl ReadAllError, w1)
                  | Some b \<Rightarrow>
                      if code = StatusUnavailableForLegalReasons then
                        (if length syms = 1 then
                           (Inl (OTCError status b (hd syms)),
                            w1\<lparr>symbolsExcluded := insert (hd syms) (symbolsExcluded w1)\<rparr>)
                         else
                           let split = length syms div 2;
                               c0 = GetBars net (take split syms) barRange limit retries w1
                           in
                             if is_panic (fst c0) then c0
                             else
                               let c1 = GetBars net (drop split syms) barRange limit retries
                                          (snd c0)
                               in
                                 if is_panic (fst c1) then c1
                                 else
                                   let acc = absorb (fst c1)
                                               (absorb (fst c0) ([], errlog (snd c1)))
                                   in (Inr (fst acc), (snd c1)\<lparr>errlog := snd acc\<rparr>))
                      else
                        (case js of
                           None \<Rightarrow> (Inl (StatusBodyError status b), w1)
                         | Some resp0 \<Rightarrow>
                             if barRange = ''1d'' \<and> has_nil_value resp0
                             then (Inl PanicNilDereference, w1)
                             else
                               let resp = (if barRange = ''1d'' then intraday_to_chart resp0
                                           else resp0)
                               in (case syms of
                                     [] \<Rightarrow> (Inl PanicIndexOutOfRange, w1)
                                   | s0 # rest \<Rightarrow>
                                       if null_chart resp s0 then
                                         (if retries > 0
                                          then GetBars net syms barRange limit (retries - 1) w1
                                          else (Inl RetryCountExceeded, w1))
                                       else (Inr resp, w1))))))"
  by pat_completeness auto

termination GetBars
proof (relation "inv_image (less_than <*lex*> less_than) GetBars_measure", goal_cases)
  case 1
  show ?case by (intro wf_inv_image wf_lex_prod wf_less_than)
next
  case (2 net symbols barRange limit retries w syms)
  have "length syms \<le> length symbols"
    using 2 by simp
  then have "length syms < length symbols \<or> length syms = length symbols"
    by linarith
  moreover have "nat (retries - 1) < nat retries"
    using 2 by simp
  ultimately show ?case
    by (auto simp: GetBars_measure_def)
next
  case (3 net symbols barRange limit retries w syms w1 code status body js b split)
  have "length syms \<le> length symbols" and "0 < length symbols"
    using 3 by simp_all
  then have "length syms div 2 < length symbols"
    by linarith
  then show ?case
    using 3 by (simp add: GetBars_measure_def)
next
  case (4 net symbols barRange limit retries w syms w1 code status body js b split c0)
  have "length syms \<le> length symbols" and "0 < length symbols" and "length syms \<noteq> 1"
    using 4 by simp_all
  then have "length syms - length syms div 2 < length symbols"
    by linarith
  then show ?case
    using 4 by (simp add: GetBars_measure_def)
next
  case (5 net symbols barRange limit retries w syms)
  have "length syms \<le> length symbols"
    using 5 by simp
  then have "length syms < length symbols \<or> length syms = length symbols"
    by linarith
  moreover have "nat (retries - 1) < nat retries"
    using 5 by simp
  ultimately show ?case
    by (auto simp: GetBars_measure_def)
qed

declare GetBars.simps [simp del]

text \<open>
  The symbols a call really asks for (those not excluded so far), the reply to its HTTP
  request, and the two shapes a recursive call \<open>b\<close> of a call \<open>a\<close> can have: a retry
  (no more symbols, one retry less, and only with retries left) or a split (fewer
  symbols, the same retries).
\<close>

definition live_symbols :: "world \<Rightarrow> symbol list \<Rightarrow> symbol list" where
  "live_symbols w symbols = filter (\<lambda>sym. sym \<notin> symbolsExcluded w) symbols"

definition first_reply ::
  "'c network \<Rightarrow> symbol list \<Rightarrow> string \<Rightarrow> int option \<Rightarrow> world \<Rightarrow> 'c http_reply" where
  "first_reply net symbols barRange limit w =
     net (calls w) (build_request (live_symbols w symbols) barRange limit)"

definition retry_or_split ::
  "'c network \<times> symbol list \<times> string \<times> int option \<times> int \<times> world
    \<Rightarrow> 'c network \<times> symbol list \<times> string \<times> int option \<times> int \<times> world \<Rightarrow> bool" where
  "retry_or_split a b =
     (case a of (net, symbols, barRange, limit, retries, w) \<Rightarrow>
      case b of (net', symbols', barRange', limit', retries', w') \<Rightarrow>
        (length symbols' \<le> length symbols \<and> 0 < retries \<and> retries' = retries - 1)
        \<or> (length symbols' < length symbols \<and> retries' = retries))"

text \<open>A network that always answers 429, and a state with one excluded symbol.\<close>

definition always_429 :: "unit network" where
  "always_429 n rq = Reply 429 ''429 Too Many Requests'' (Some []) None"

definition world0 :: world where
  "world0 = \<lparr> symbolsExcluded = {''OTCX''}, calls = 0, errlog = [] \<rparr>"


section \<open>cmd/start: executeStart, the signal handler and shutdown\<close>

text \<open>
  The start command (\<^verbatim>\<open>src/unnamed/part_000\<close>, package \<^verbatim>\<open>start\<close>).  The fields of the
  configuration that steer \<^verbatim>\<open>executeStart\<close>, and the outcome of every library call
  that can make it return early, are inputs of the model.
\<close>

record ReplicationConfig =
  Enabled :: bool
  TLSEnabled :: bool
  MasterHost :: string
  RetryInterval :: int
  RetryBackoffCoeff :: int

record Config =
  Replication :: ReplicationConfig
  GRPCListenURL :: string
  UtilitiesURL :: string
  StopGracePeriod :: int

text \<open>Whether each fallible call of \<^verbatim>\<open>executeStart\<close> succeeds.\<close>

record start_env =
  readFile_ok :: bool
  parse_ok :: bool
  loadX509KeyPair_ok :: bool
  replicationListen_ok :: bool
  newInstanceSetup_ok :: bool
  newWriter_ok :: bool
  newClientTLSFromFile_ok :: bool
  grpcDial_ok :: bool
  grpcListen_ok :: bool

datatype start_error =
  ReadConfigFailed
| ParseConfigFailed
| LoadServerCertificatesFailed
| InitReplicationMasterFailed
| NewInstanceSetupFailed
| InitWriterFailed
| LoadClientCertFileFailed
| DialMasterFailed
| GRPCListenFailed

text \<open>
  The two values handed to the frontends as their writer: \<^verbatim>\<open>writer\<close> (from
  \<^verbatim>\<open>executor.NewWriter\<close>) or \<^verbatim>\<open>&executor.ErrorWriter{}\<close>.
\<close>

datatype writer_impl = Writer | ErrorWriter

text \<open>
  What \<^verbatim>\<open>executeStart\<close> has set up when it reaches \<^verbatim>\<open>http.ListenAndServe\<close>: the
  writer given to \<^verbatim>\<open>frontend.NewServer\<close> and to \<^verbatim>\<open>frontend.NewGRPCService\<close>, whether
  a replication server exists, whether the replication client was started, whether the
  gRPC listener runs, and the value stored in \<^verbatim>\<open>frontend.Queryable\<close>.
\<close>

record server =
  rpc_writer :: writer_impl
  grpc_writer :: writer_impl
  replication_server :: bool
  replication_client :: bool
  utility_api :: bool
  grpc_listening :: bool
  queryable :: nat

text \<open>Lines 104-129: the replication master, when \<^verbatim>\<open>config.Replication.Enabled\<close>.\<close>

definition init_replication_server :: "start_env \<Rightarrow> Config \<Rightarrow> start_error + bool" where
  "init_replication_server env config =
     (if Enabled (Replication config) then
        (if TLSEnabled (Replication config) \<and> \<not> loadX509KeyPair_ok env
         then Inl LoadServerCertificatesFailed
         else if \<not> replicationListen_ok env then Inl InitReplicationMasterFailed
         else Inr True)
      else Inr False)"

text \<open>\<^verbatim>\<open>initReplicationClient\<close>: the certificate, then \<^verbatim>\<open>grpc.Dial\<close>.\<close>

definition initReplicationClient :: "start_env \<Rightarrow> Config \<Rightarrow> start_error option" where
  "initReplicationClient env config =
     (if TLSEnabled (Replication config) \<and> \<not> newClientTLSFromFile_ok env
      then Some LoadClientCertFileFailed
      else if \<not> grpcDial_ok env then Some DialMasterFailed
      else None)"

text \<open>
  Lines 173-210: on a replica (\<^verbatim>\<open>MasterHost != ""\<close>) the replication client is started
  and both frontends get the \<^verbatim>\<open>ErrorWriter\<close>; otherwise both get the writer.  The
  result is the pair of writers (RPC server, gRPC service) and whether the replication
  client runs.
\<close>

definition construct_frontends ::
  "start_env \<Rightarrow> Config \<Rightarrow> start_error + (writer_impl \<times> writer_impl \<times> bool)" where
  "construct_frontends env config =
     (if MasterHost (Replication config) \<noteq> [] then
        (case initReplicationClient env config of
           Some e \<Rightarrow> Inl e
         | None \<Rightarrow> Inr (ErrorWriter, ErrorWriter, True))
      else Inr (Writer, Writer, False))"

definition executeStart :: "start_env \<Rightarrow> Config \<Rightarrow> start_error + server" where
  "executeStart env config =
     (if \<not> readFile_ok env then Inl ReadConfigFailed
      else if \<not> parse_ok env then Inl ParseConfigFailed
      else
        (case init_replication_server env config of
           Inl e \<Rightarrow> Inl e
         | Inr rs \<Rightarrow>
             if \<not> newInstanceSetup_ok env then Inl NewInstanceSetupFailed
             else if \<not> newWriter_ok env then Inl InitWriterFailed
             else
               (case construct_frontends env config of
                  Inl e \<Rightarrow> Inl e
                | Inr (rpcw, grpcw, client) \<Rightarrow>
                    if GRPCListenURL config \<noteq> [] \<and> \<not> grpcListen_ok env
                    then Inl GRPCListenFailed
                    else Inr \<lparr> rpc_writer = rpcw, grpc_writer = grpcw,
                               replication_server = rs, replication_client = client,
                               utility_api = (UtilitiesURL config \<noteq> []),
                               grpc_listening = (GRPCListenURL config \<noteq> []),
                               queryable = 1 \<rparr>)))"

text \<open>
  Modelled from the spec: \<^verbatim>\<open>executor.Writer\<close>, \<^verbatim>\<open>executor.ErrorWriter\<close> and the
  frontends' write handlers are not among the source files.  The spec gives the
  outcomes of a write (section 4.4: ok, SchemaMismatch, BucketNotFound, Rejected) and
  says that the ErrorWriter rejects all calls with ReadOnlyReplica.  The behaviour of the
  real writer is the parameter \<open>real\<close>; a frontend's external write goes to the writer
  the frontend was constructed with.
\<close>

datatype write_result = WriteOk | SchemaMismatch | BucketNotFound | Rejected | ReadOnlyReplica

definition WriteCSM :: "('csm \<Rightarrow> write_result) \<Rightarrow> writer_impl \<Rightarrow> 'csm \<Rightarrow> write_result" where
  "WriteCSM real w csm = (case w of Writer \<Rightarrow> real csm | ErrorWriter \<Rightarrow> ReadOnlyReplica)"

definition rpc_Write :: "('csm \<Rightarrow> write_result) \<Rightarrow> server \<Rightarrow> 'csm \<Rightarrow> write_result" where
  "rpc_Write real srv csm = WriteCSM real (rpc_writer srv) csm"

definition grpc_Write :: "('csm \<Rightarrow> write_result) \<Rightarrow> server \<Rightarrow> 'csm \<Rightarrow> write_result" where
  "grpc_Write real srv csm = WriteCSM real (grpc_writer srv) csm"

subsection \<open>The signal handler\<close>

text \<open>
  The goroutine of lines 262-290 ranges over the signal channel; only the three signals
  of \<^verbatim>\<open>signal.Notify\<close> arrive.  Its effects are recorded as a trace, in program order.
  The last event, closing the HTTP server that \<^verbatim>\<open>http.ListenAndServe\<close> runs for
  \<^verbatim>\<open>/rpc\<close>, is one that no line of the handler produces.
\<close>

datatype signal = SIGUSR1 | SIGINT | SIGTERM

datatype event =
  DumpStacks
| GrpcGracefulStop
| GlobalCancel
| ReplicationStop
| StoreQueryable nat
| Sleep int
| SetShutdownPending
| WalWait
| Exit int
| HttpServerClose

text \<open>
  What the handler closes over: whether \<^verbatim>\<open>grpcReplicationServer\<close> is non-nil, the grace
  period, whether \<^verbatim>\<open>shutdownPending\<close> is non-nil, and whether writing the goroutine
  profile succeeds.
\<close>

record handler =
  has_replication_server :: bool
  grace_period :: int
  has_shutdownPending :: bool
  pprof_ok :: bool

text \<open>\<^verbatim>\<open>shutdown(shutdownPending, walWG)\<close>, lines 300-307.\<close>

definition shutdown :: "bool \<Rightarrow> event list" where
  "shutdown pending =
     (if pending then [SetShutdownPending] else []) @ [WalWait, Exit 0]"

text \<open>The body of \<^verbatim>\<open>case syscall.SIGTERM\<close>, which \<^verbatim>\<open>SIGINT\<close> falls through to.\<close>

definition on_terminate :: "handler \<Rightarrow> event list" where
  "on_terminate h =
     [GrpcGracefulStop, GlobalCancel]
     @ (if has_replication_server h then [ReplicationStop] else [])
     @ [StoreQueryable 0, Sleep (grace_period h)]
     @ shutdown (has_shutdownPending h)"

text \<open>
  \<^verbatim>\<open>for s := range signalChan\<close>: \<^verbatim>\<open>SIGUSR1\<close> dumps the stacks and, when that fails,
  returns from the goroutine; \<^verbatim>\<open>SIGINT\<close> and \<^verbatim>\<open>SIGTERM\<close> end the process.
\<close>

fun signal_loop :: "handler \<Rightarrow> signal list \<Rightarrow> event list" where
  "signal_loop h [] = []"
| "signal_loop h (SIGUSR1 # ss) = DumpStacks # (if pprof_ok h then signal_loop h ss else [])"
| "signal_loop h (SIGINT # ss) = on_terminate h"
| "signal_loop h (SIGTERM # ss) = on_terminate h"

text \<open>Position of the first occurrence of an event in a trace.\<close>

fun first_index :: "'a \<Rightarrow> 'a list \<Rightarrow> nat option" where
  "first_index a [] = None"
| "first_index a (x # xs) =
     (if x = a then Some 0 else map_option Suc (first_index a xs))"

definition precedes :: "'a \<Rightarrow> 'a \<Rightarrow> 'a list \<Rightarrow> bool" where
  "precedes a b tr =
     (case first_index a tr of
        None \<Rightarrow> False
      | Some i \<Rightarrow> (case first_index b tr of None \<Rightarrow> False | Some j \<Rightarrow> i < j))"

text \<open>
  The order of the shutdown steps as the specification lists them: the queryable flag
  first, then the servers, then the grace period, then the wait for the WAL, then exit.
\<close>

definition spec_shutdown_order :: "int \<Rightarrow> event list \<Rightarrow> bool" where
  "spec_shutdown_order g tr =
     (precedes (StoreQueryable 0) GrpcGracefulStop tr
      \<and> precedes GrpcGracefulStop (Sleep g) tr
      \<and> precedes (Sleep g) WalWait tr
      \<and> precedes WalWait (Exit 0) tr)"

text \<open>The order the handler has: the servers first, then the queryable flag.\<close>

definition code_shutdown_order :: "int \<Rightarrow> event list \<Rightarrow> bool" where
  "code_shutdown_order g tr =
     (precedes GrpcGracefulStop GlobalCancel tr
      \<and> precedes GlobalCancel (StoreQueryable 0) tr
      \<and> precedes (StoreQueryable 0) (Sleep g) tr
      \<and> precedes (Sleep g) WalWait tr
      \<and> precedes WalWait (Exit 0) tr)"

text \<open>
  A run in which every library call succeeds, the configuration of a replica, a writer
  that accepts everything, the configuration of a replication master, a handler without
  replication server and \<^verbatim>\<open>shutdownPending\<close> whose stack dump fails, and the handler of a
  replication master (its \<^verbatim>\<open>grpcReplicationServer\<close> exists) with a grace period of 5.
\<close>

definition all_ok :: start_env where
  "all_ok = \<lparr> readFile_ok = True, parse_ok = True, loadX509KeyPair_ok = True,
              replicationListen_ok = True, newInstanceSetup_ok = True, newWriter_ok = True,
              newClientTLSFromFile_ok = True, grpcDial_ok = True, grpcListen_ok = True \<rparr>"

definition replica_config :: Config where
  "replica_config =
     \<lparr> Replication = \<lparr> Enabled = False, TLSEnabled = False, MasterHost = ''127.0.0.1:5996'',
                        RetryInterval = 10, RetryBackoffCoeff = 2 \<rparr>,
       GRPCListenURL = ''0.0.0.0:5995'', UtilitiesURL = [], StopGracePeriod = 0 \<rparr>"

definition accept_all :: "unit \<Rightarrow> write_result" where
  "accept_all csm = WriteOk"

definition master_config :: Config where
  "master_config =
     \<lparr> Replication = \<lparr> Enabled = True, TLSEnabled = False, MasterHost = [],
                        RetryInterval = 10, RetryBackoffCoeff = 2 \<rparr>,
       GRPCListenURL = ''0.0.0.0:5995'', UtilitiesURL = [], StopGracePeriod = 5 \<rparr>"

definition plain_handler :: handler where
  "plain_handler =
     \<lparr> has_replication_server = False, grace_period = 0, has_shutdownPending = False,
       pprof_ok = False \<rparr>"

definition master_handler :: handler where
  "master_handler =
     \<lparr> has_replication_server = True, grace_period = 5, has_shutdownPending = True,
       pprof_ok = True \<rparr>"


section \<open>The query engine, modelled from the specification\<close>

text \<open>
  Modelled from the spec: the packages \<^verbatim>\<open>sqlparser\<close>, \<^verbatim>\<open>executor\<close>, \<^verbatim>\<open>catalog\<close> and
  \<^verbatim>\<open>utils/io\<close> are not among the source files; of the query engine only its test
  (\<^verbatim>\<open>src/unnamed/part_001\<close>, package \<^verbatim>\<open>sqlparser_test\<close>) is.  The definitions of this
  section follow sections 3, 4.1, 4.2 and 4.5 of the specification: a statement
  \<^verbatim>\<open>SELECT <cols|*|fn(args)> FROM '<bucketKey>' [WHERE <pred>]\<close> over a fixed bucket,
  with a conjunction of comparisons on \<^verbatim>\<open>Epoch\<close> and of comparisons on other columns.
  Subqueries, disjunctions, LIMIT, variable buckets and INSERT INTO are not modelled.
\<close>

text \<open>
  Modelled from the spec: section 3, data model.  A record is its \<^verbatim>\<open>Epoch\<close> and one
  value per further column of the schema; a segment file is an array of slots, a
  zero-filled slot being \<open>None\<close>; a bucket has its schema, the seconds per slot of its
  timeframe and the sorted map from year to segment file; the catalog resolves bucket
  keys.  The number of segment file reads is kept beside the catalog.
\<close>

type_synonym 'v row = "int \<times> 'v list"

type_synonym 'v segment = "int \<Rightarrow> 'v row option"

record 'v bucket =
  schema_columns :: "string list"
  stepSeconds :: int
  yearMap :: "(int \<times> 'v segment) list"

record 'v database =
  catalog :: "string \<Rightarrow> 'v bucket option"
  segment_reads :: nat

text \<open>
  Modelled from the spec: section 3, column series.  An ordered mapping from column
  name to typed vector; \<^verbatim>\<open>Len\<close> is the length of its vectors.
\<close>

datatype 'v vec = Int64s "int list" | Values "'v list"

type_synonym 'v ColumnSeries = "(string \<times> 'v vec) list"

fun vec_len :: "'v vec \<Rightarrow> nat" where
  "vec_len (Int64s xs) = length xs"
| "vec_len (Values xs) = length xs"

fun Len :: "'v ColumnSeries \<Rightarrow> nat" where
  "Len [] = 0"
| "Len ((name, v) # cs) = vec_len v"

definition epochs_of :: "'v ColumnSeries \<Rightarrow> int list" where
  "epochs_of cs = (case map_of cs ''Epoch'' of Some (Int64s es) \<Rightarrow> es | _ \<Rightarrow> [])"

text \<open>
  Modelled from the spec: section 3, invariant of a fixed bucket.  The first second of
  a calendar year, in seconds since 1970-01-01 00:00 UTC.
\<close>

definition startOfYear :: "int \<Rightarrow> int" where
  "startOfYear y =
     86400 * (365 * (y - 1970) + (y - 1969) div 4 - (y - 1901) div 100 + (y - 1601) div 400)"

text \<open>
  Modelled from the spec: section 4.5.  The comparisons on \<^verbatim>\<open>Epoch\<close> (BETWEEN, <, <=,
  >, >=) and their normalisation to a closed range \<open>[lo, hi]\<close> of seconds, open
  intervals converted with one second; a bound that no comparison gives is \<open>None\<close>.
  Scenario S1 and \<^verbatim>\<open>TestExecutableStatement\<close> (29 rows for BETWEEN 12:30 AND 13:00 over
  one record per minute, the same as for the strict comparisons) fix the bounds of
  BETWEEN as exclusive: a closed range of 1800 seconds holds 30 or 31 minute marks.
\<close>

datatype epoch_pred =
  EpochBetween int int
| EpochLt int
| EpochLe int
| EpochGt int
| EpochGe int

type_synonym bounds = "int option \<times> int option"

fun raise_lo :: "int \<Rightarrow> bounds \<Rightarrow> bounds" where
  "raise_lo a (None, h) = (Some a, h)"
| "raise_lo a (Some l, h) = (Some (max l a), h)"

fun lower_hi :: "int \<Rightarrow> bounds \<Rightarrow> bounds" where
  "lower_hi b (l, None) = (l, Some b)"
| "lower_hi b (l, Some h) = (l, Some (min h b))"

fun tighten :: "epoch_pred \<Rightarrow> bounds \<Rightarrow> bounds" where
  "tighten (EpochBetween a b) r = raise_lo (a + 1) (lower_hi (b - 1) r)"
| "tighten (EpochLt b) r = lower_hi (b - 1) r"
| "tighten (EpochLe b) r = lower_hi b r"
| "tighten (EpochGt a) r = raise_lo (a + 1) r"
| "tighten (EpochGe a) r = raise_lo a r"

definition normalize :: "epoch_pred list \<Rightarrow> bounds" where
  "normalize ps = foldr tighten ps (None, None)"

fun impossible :: "bounds \<Rightarrow> bool" where
  "impossible (Some l, Some h) = (h < l)"
| "impossible (l, h) = False"

text \<open>
  Modelled from the spec: the seconds that a comparison on \<^verbatim>\<open>Epoch\<close> denotes, and
  those that a normalised range holds.
\<close>

fun epoch_holds :: "epoch_pred \<Rightarrow> int \<Rightarrow> bool" where
  "epoch_holds (EpochBetween a b) t = (a < t \<and> t < b)"
| "epoch_holds (EpochLt b) t = (t < b)"
| "epoch_holds (EpochLe b) t = (t \<le> b)"
| "epoch_holds (EpochGt a) t = (a < t)"
| "epoch_holds (EpochGe a) t = (a \<le> t)"

fun within :: "bounds \<Rightarrow> int \<Rightarrow> bool" where
  "within (l, h) t =
     ((case l of None \<Rightarrow> True | Some a \<Rightarrow> a \<le> t) \<and> (case h of None \<Rightarrow> True | Some b \<Rightarrow> t \<le> b))"

text \<open>
  Modelled from the spec: sections 4.2 and 4.5, step 1.  The slots of one catalog year
  that a range meets.  The slot of epoch \<open>t\<close> is \<open>(t - Y0) div stepSeconds\<close>; the range
  is cut to the year, and its first slot is rounded up.  The step of a timeframe is
  positive.
\<close>

definition year_slots :: "int \<Rightarrow> bounds \<Rightarrow> int \<Rightarrow> (int \<times> int) option" where
  "year_slots step r y =
     (let y0 = startOfYear y;
          y1 = startOfYear (y + 1);
          a = (case fst r of None \<Rightarrow> y0 | Some l \<Rightarrow> max l y0);
          b = (case snd r of None \<Rightarrow> y1 - 1 | Some h \<Rightarrow> min h (y1 - 1));
          sa = (a - y0 + step - 1) div step;
          sb = (b - y0) div step
      in if a \<le> b \<and> sa \<le> sb then Some (sa, sb) else None)"

definition slot_plan :: "'v bucket \<Rightarrow> bounds \<Rightarrow> ('v segment \<times> int \<times> int) list" where
  "slot_plan b r =
     List.map_filter
       (\<lambda>ys. map_option (\<lambda>sl. (snd ys, sl)) (year_slots (stepSeconds b) r (fst ys)))
       (yearMap b)"

text \<open>
  Modelled from the spec: section 4.5, step 2.  One read of a segment file returns the
  records of a slot range in slot order, without the zero-filled slots.
\<close>

definition read_slots :: "'v segment \<times> int \<times> int \<Rightarrow> 'v row list" where
  "read_slots p = List.map_filter (fst p) [fst (snd p)..snd (snd p)]"

text \<open>
  Modelled from the spec: section 4.5, step 3.  Residual predicates, comparisons of a
  column with a literal, applied row by row.
\<close>

datatype cmp = CmpLt | CmpLe | CmpGt | CmpGe

datatype 'v residual = Residual string cmp 'v

fun cmp_holds :: "cmp \<Rightarrow> 'v::linorder \<Rightarrow> 'v \<Rightarrow> bool" where
  "cmp_holds CmpLt x y = (x < y)"
| "cmp_holds CmpLe x y = (x \<le> y)"
| "cmp_holds CmpGt x y = (x > y)"
| "cmp_holds CmpGe x y = (x \<ge> y)"

fun residual_column :: "'v residual \<Rightarrow> string" where
  "residual_column (Residual c op lit) = c"

fun residual_holds :: "string list \<Rightarrow> 'v::linorder row \<Rightarrow> 'v residual \<Rightarrow> bool" where
  "residual_holds cols (t, vs) (Residual c op lit) =
     (case first_index c cols of
        None \<Rightarrow> False
      | Some i \<Rightarrow> i < length vs \<and> cmp_holds op (vs ! i) lit)"

text \<open>
  Modelled from the spec: section 4.5, steps 4 and 5, and section 4.6.  The projection
  list is \<^verbatim>\<open>*\<close> (schema order), a list of columns, or a call of an aggregate; the
  \<^verbatim>\<open>Epoch\<close> column is always present.  The registry of aggregates is a parameter of
  \<^verbatim>\<open>Materialize\<close>, as in the test; \<^verbatim>\<open>GetFunc\<close> returns the function or nothing.
\<close>

datatype projection = Star | Columns "string list" | Call string "string list"

datatype query_error = NoSuchBucket | InvalidQuery | Corruption

type_synonym 'v aggregates =
  "string \<Rightarrow> (string list \<Rightarrow> 'v ColumnSeries \<Rightarrow> query_error + 'v ColumnSeries) option"

record 'v select =
  sel_projection :: projection
  sel_from :: string
  sel_epoch :: "epoch_pred list"
  sel_residual :: "'v residual list"

definition projected_names :: "string list \<Rightarrow> projection \<Rightarrow> string list" where
  "projected_names cols proj =
     (case proj of
        Star \<Rightarrow> ''Epoch'' # cols
      | Columns cs \<Rightarrow> (if ''Epoch'' \<in> set cs then cs else ''Epoch'' # cs)
      | Call f args \<Rightarrow> ''Epoch'' # filter (\<lambda>a. a \<in> set cols) args)"

definition column_of :: "string list \<Rightarrow> 'v row list \<Rightarrow> string \<Rightarrow> (query_error + 'v vec)" where
  "column_of cols rows c =
     (if c = ''Epoch'' then Inr (Int64s (map fst rows))
      else
        (case first_index c cols of
           None \<Rightarrow> Inl InvalidQuery
         | Some i \<Rightarrow>
             if list_all (\<lambda>r. i < length (snd r)) rows
             then Inr (Values (map (\<lambda>r. snd r ! i) rows))
             else Inl Corruption))"

fun build_columns ::
  "string list \<Rightarrow> 'v row list \<Rightarrow> string list \<Rightarrow> query_error + 'v ColumnSeries" where
  "build_columns cols rows [] = Inr []"
| "build_columns cols rows (c # cs) =
     (case column_of cols rows c of
        Inl e \<Rightarrow> Inl e
      | Inr v \<Rightarrow>
          (case build_columns cols rows cs of
             Inl e \<Rightarrow> Inl e
           | Inr rest \<Rightarrow> Inr ((c, v) # rest)))"

definition finish ::
  "'v aggregates \<Rightarrow> projection \<Rightarrow> 'v ColumnSeries \<Rightarrow> query_error + 'v ColumnSeries" where
  "finish aggs proj cs =
     (case proj of
        Call f args \<Rightarrow> (case aggs f of None \<Rightarrow> Inl InvalidQuery | Some g \<Rightarrow> g args cs)
      | _ \<Rightarrow> Inr cs)"

text \<open>
  Modelled from the spec: section 4.5, materialization algorithm.  The range is
  normalised first, and an impossible range yields an empty column series without I/O;
  so does a range that meets no catalog year.  Otherwise the segment files of the plan
  are read in year order (one read each), the residual predicates are applied, the
  columns are projected and the aggregate, if any, is computed last.
\<close>

definition Materialize ::
  "'v::linorder aggregates \<Rightarrow> 'v select \<Rightarrow> 'v database
     \<Rightarrow> (query_error + 'v ColumnSeries) \<times> 'v database" where
  "Materialize aggs q db =
     (let r = normalize (sel_epoch q) in
      if impossible r then (Inr [], db)
      else
        (case catalog db (sel_from q) of
           None \<Rightarrow> (Inl NoSuchBucket, db)
         | Some b \<Rightarrow>
             let plan = slot_plan b r in
             if plan = [] then (Inr [], db)
             else
               let rows = concat (map read_slots plan);
                   db' = db\<lparr>segment_reads := segment_reads db + length plan\<rparr>;
                   kept = filter (\<lambda>row. list_all (residual_holds (schema_columns b) row)
                                          (sel_residual q)) rows
               in
                 if \<not> list_all (\<lambda>p. residual_column p \<in> set (schema_columns b))
                          (sel_residual q)
                 then (Inl InvalidQuery, db')
                 else
                   (case build_columns (schema_columns b) kept
                           (projected_names (schema_columns b) (sel_projection q)) of
                      Inl e \<Rightarrow> (Inl e, db')
                    | Inr cs \<Rightarrow> (finish aggs (sel_projection q) cs, db'))))"

text \<open>
  Modelled from the spec: section 8, scenario S1.  The bucket \<^verbatim>\<open>AAPL/1Min/OHLCV\<close> with
  one record per minute over 2000-01-05 and nothing else; the values of its columns
  are left open (\<open>gen\<close> gives the value of a column in a slot).  The timestamp literals
  are seconds since 1970.
\<close>

definition OHLCV :: "string list" where
  "OHLCV = [''Open'', ''High'', ''Low'', ''Close'', ''Volume'']"

definition january_2000 :: "int \<Rightarrow> int \<Rightarrow> int \<Rightarrow> int" where
  "january_2000 day hh mm = startOfYear 2000 + (day - 1) * 86400 + hh * 3600 + mm * 60"

definition seed_segment :: "(int \<Rightarrow> string \<Rightarrow> 'v) \<Rightarrow> 'v segment" where
  "seed_segment gen slot =
     (if 4 * 1440 \<le> slot \<and> slot < 5 * 1440
      then Some (startOfYear 2000 + 60 * slot, map (gen slot) OHLCV)
      else None)"

definition seed_bucket :: "(int \<Rightarrow> string \<Rightarrow> 'v) \<Rightarrow> 'v bucket" where
  "seed_bucket gen =
     \<lparr> schema_columns = OHLCV, stepSeconds = 60, yearMap = [(2000, seed_segment gen)] \<rparr>"

definition seed_db :: "(int \<Rightarrow> string \<Rightarrow> 'v) \<Rightarrow> 'v database" where
  "seed_db gen =
     \<lparr> catalog = (\<lambda>key. if key = ''AAPL/1Min/OHLCV'' then Some (seed_bucket gen) else None),
       segment_reads = 0 \<rparr>"

text \<open>
  Modelled from the spec: the statement of scenario S1, \<^verbatim>\<open>SELECT Epoch, Open, High, Low,
  Close FROM `AAPL/1Min/OHLCV` WHERE Epoch BETWEEN '2000-01-05-12:30' AND
  '2000-01-05-13:00'\<close>.
\<close>

definition point_query :: "'v select" where
  "point_query =
     \<lparr> sel_projection = Columns [''Epoch'', ''Open'', ''High'', ''Low'', ''Close''],
       sel_from = ''AAPL/1Min/OHLCV'',
       sel_epoch = [EpochBetween (january_2000 5 12 30) (january_2000 5 13 0)],
       sel_residual = [] \<rparr>"

text \<open>
  Modelled from the spec: the statement of scenario S2, \<^verbatim>\<open>SELECT Epoch, Open, High, Low,
  Close FROM `AAPL/1Min/OHLCV` WHERE Epoch < '2000-01-05-12:30' AND Epoch >
  '2000-01-05-13:00'\<close>, an empty registry of aggregates and a seed whose columns all
  hold 100.
\<close>

definition impossible_query :: "'v select" where
  "impossible_query =
     \<lparr> sel_projection = Columns [''Epoch'', ''Open'', ''High'', ''Low'', ''Close''],
       sel_from = ''AAPL/1Min/OHLCV'',
       sel_epoch = [EpochLt (january_2000 5 12 30), EpochGt (january_2000 5 13 0)],
       sel_residual = [] \<rparr>"

definition no_aggregates :: "int aggregates" where
  "no_aggregates f = None"

definition flat_prices :: "int \<Rightarrow> string \<Rightarrow> int" where
  "flat_prices slot c = 100"




section \<open>Properties of GetBars\<close>

lemma GetBars_rel_shape:
  assumes "GetBars_rel b a"
  shows "retry_or_split a b"
  using assms
proof (cases rule: GetBars_rel.cases)
  case (1 net symbols barRange limit retries w syms)
  then show ?thesis by (simp add: retry_or_split_def)
next
  case (2 net symbols barRange limit retries w syms w1 code status body js bd split)
  have "length syms \<le> length symbols" and "0 < length symbols"
    using 2 by simp_all
  then have "length syms div 2 < length symbols"
    by linarith
  then show ?thesis using 2 by (simp add: retry_or_split_def)
next
  case (3 net symbols barRange limit retries w syms w1 code status body js bd split c0)
  have "length syms \<le> length symbols" and "0 < length symbols" and "length syms \<noteq> 1"
    using 3 by simp_all
  then have "length syms - length syms div 2 < length symbols"
    by linarith
  then show ?thesis using 3 by (simp add: retry_or_split_def)
next
  case (4 net symbols barRange limit retries w syms)
  then show ?thesis by (simp add: retry_or_split_def)
qed

lemma retry_or_split_measure:
  assumes "retry_or_split a b"
  shows "(GetBars_measure b, GetBars_measure a) \<in> less_than <*lex*> less_than"
proof -
  obtain net symbols barRange limit retries w where a: "a = (net, symbols, barRange, limit, retries, w)"
    by (cases a)
  obtain net' symbols' barRange' limit' retries' w' where b: "b = (net', symbols', barRange', limit', retries', w')"
    by (cases b)
  from assms consider
    (retry) "length symbols' \<le> length symbols" "0 < retries" "retries' = retries - 1"
    | (split) "length symbols' < length symbols" "retries' = retries"
    unfolding a b retry_or_split_def by auto
  then show ?thesis
  proof cases
    case retry
    then have "length symbols' < length symbols \<or> length symbols' = length symbols"
      by linarith
    moreover have "nat retries' < nat retries" using retry by simp
    ultimately show ?thesis by (auto simp: a b GetBars_measure_def)
  next
    case split
    then show ?thesis by (simp add: a b GetBars_measure_def)
  qed
qed

lemma wfp_GetBars_rel:
  "wfp (GetBars_rel ::
      'c network \<times> symbol list \<times> string \<times> int option \<times> int \<times> world \<Rightarrow> _ \<Rightarrow> bool)"
proof -
  let ?R = "inv_image (less_than <*lex*> less_than)
              (GetBars_measure :: 'c network \<times> symbol list \<times> string \<times> int option \<times> int \<times> world \<Rightarrow> _)"
  have wf: "wf ?R"
    by (intro wf_inv_image wf_lex_prod wf_less_than)
  have mem: "(b, a) \<in> ?R" if "GetBars_rel b a" for a b
    using retry_or_split_measure [OF GetBars_rel_shape [OF that]] by (simp only: in_inv_image)
  have sub: "{(b, a). GetBars_rel b a} \<subseteq> ?R"
    by (rule subsetI, clarify, erule mem)
  have "wf {(b :: 'c network \<times> symbol list \<times> string \<times> int option \<times> int \<times> world, a). GetBars_rel b a}"
    by (rule wf_subset [OF wf sub])
  then show ?thesis by (simp add: wfp_def)
qed

lemma GetBars_429_exhausted:
  assumes "symbols \<noteq> []" and "SupportedRange barRange"
    and "first_reply net symbols barRange limit w = Reply StatusTooManyRequests status body js"
    and "retries \<le> 0"
  shows "fst (GetBars net symbols barRange limit retries w) = Inl RetryCountExceeded"
  using assms by (simp add: GetBars.simps [of net symbols] first_reply_def live_symbols_def Let_def)

lemma GetBars_451_single:
  assumes "symbols \<noteq> []" and "SupportedRange barRange"
    and "first_reply net symbols barRange limit w
           = Reply StatusUnavailableForLegalReasons status (Some bd) js"
    and "live_symbols w symbols = [s]"
  shows "fst (GetBars net symbols barRange limit retries w) = Inl (OTCError status bd s)"
  using assms
  by (simp add: GetBars.simps [of net symbols] first_reply_def live_symbols_def Let_def
      StatusTooManyRequests_def StatusUnavailableForLegalReasons_def)

lemma GetBars_null_chart_exhausted:
  assumes "symbols \<noteq> []" and "SupportedRange barRange"
    and "first_reply net symbols barRange limit w = Reply code status (Some bd) (Some resp)"
    and "code \<noteq> StatusTooManyRequests" and "code \<noteq> StatusUnavailableForLegalReasons"
    and "\<not> (barRange = ''1d'' \<and> has_nil_value resp)"
    and "live_symbols w symbols = s0 # rest"
    and "null_chart (if barRange = ''1d'' then intraday_to_chart resp else resp) s0"
    and "retries \<le> 0"
  shows "fst (GetBars net symbols barRange limit retries w) = Inl RetryCountExceeded"
  using assms
  by (simp add: GetBars.simps [of net symbols] first_reply_def live_symbols_def Let_def)

lemma GetBars_panic_unwinds:
  assumes "symbols \<noteq> []" and "SupportedRange barRange"
    and "first_reply net symbols barRange limit w
           = Reply StatusUnavailableForLegalReasons status (Some bd) js"
    and "length (live_symbols w symbols) \<noteq> 1"
    and "is_panic (fst (GetBars net
            (take (length (live_symbols w symbols) div 2) (live_symbols w symbols))
            barRange limit retries (w\<lparr>calls := calls w + 1\<rparr>)))"
  shows "GetBars net symbols barRange limit retries w
           = GetBars net
               (take (length (live_symbols w symbols) div 2) (live_symbols w symbols))
               barRange limit retries (w\<lparr>calls := calls w + 1\<rparr>)"
  using assms
  by (simp add: GetBars.simps [of net symbols] first_reply_def live_symbols_def Let_def
      StatusTooManyRequests_def StatusUnavailableForLegalReasons_def)

text \<open>
  Claim C10.  \<^verbatim>\<open>GetBars\<close> terminates for every symbols list, bar range, limit and retry
  count and for every behaviour of the network: its recursion relation is well-founded,
  because every recursive call is a retry (HTTP 429 or a null chart: no more symbols and
  one retry less) or a split (HTTP 451: strictly fewer symbols, the same retries), and so
  decreases the lexicographic measure (length of the symbols list, retries).  Where the
  recursion stops with retries exhausted, or with a single symbol left after HTTP 451,
  the call returns an error.
\<close>

theorem GetBars_terminates:
  fixes a b :: "'c network \<times> symbol list \<times> string \<times> int option \<times> int \<times> world"
  shows
    "wfp (GetBars_rel ::
        'c network \<times> symbol list \<times> string \<times> int option \<times> int \<times> world \<Rightarrow> _ \<Rightarrow> bool)
     \<and> (GetBars_rel b a \<longrightarrow>
          retry_or_split a b
          \<and> (GetBars_measure b, GetBars_measure a) \<in> less_than <*lex*> less_than)
     \<and> (symbols \<noteq> [] \<and> SupportedRange barRange \<and> retries \<le> 0
          \<and> first_reply net symbols barRange limit w
              = Reply StatusTooManyRequests status body js
          \<longrightarrow> fst (GetBars net symbols barRange limit retries w) = Inl RetryCountExceeded)
     \<and> (symbols \<noteq> [] \<and> SupportedRange barRange \<and> live_symbols w symbols = [s]
          \<and> first_reply net symbols barRange limit w
              = Reply StatusUnavailableForLegalReasons status (Some bd) js
          \<longrightarrow> fst (GetBars net symbols barRange limit retries w) = Inl (OTCError status bd s))
     \<and> (symbols \<noteq> [] \<and> SupportedRange barRange \<and> retries \<le> 0
          \<and> first_reply net symbols barRange limit w = Reply code status (Some bd) (Some resp)
          \<and> code \<noteq> StatusTooManyRequests \<and> code \<noteq> StatusUnavailableForLegalReasons
          \<and> \<not> (barRange = ''1d'' \<and> has_nil_value resp)
          \<and> live_symbols w symbols = s0 # rest
          \<and> null_chart (if barRange = ''1d'' then intraday_to_chart resp else resp) s0
          \<longrightarrow> fst (GetBars net symbols barRange limit retries w) = Inl RetryCountExceeded)"
proof (intro conjI impI)
  show "wfp (GetBars_rel ::
        'c network \<times> symbol list \<times> string \<times> int option \<times> int \<times> world \<Rightarrow> _ \<Rightarrow> bool)"
    by (rule wfp_GetBars_rel)
next
  assume "GetBars_rel b a"
  then show "retry_or_split a b"
    by (rule GetBars_rel_shape)
  then show "(GetBars_measure b, GetBars_measure a) \<in> less_than <*lex*> less_than"
    by (rule retry_or_split_measure)
next
  assume "symbols \<noteq> [] \<and> SupportedRange barRange \<and> retries \<le> 0
          \<and> first_reply net symbols barRange limit w
              = Reply StatusTooManyRequests status body js"
  then show "fst (GetBars net symbols barRange limit retries w) = Inl RetryCountExceeded"
    by (intro GetBars_429_exhausted [where status = status and body = body and js = js]) simp_all
next
  assume "symbols \<noteq> [] \<and> SupportedRange barRange \<and> live_symbols w symbols = [s]
          \<and> first_reply net symbols barRange limit w
              = Reply StatusUnavailableForLegalReasons status (Some bd) js"
  then show "fst (GetBars net symbols barRange limit retries w) = Inl (OTCError status bd s)"
    by (intro GetBars_451_single [where js = js]) simp_all
next
  assume "symbols \<noteq> [] \<and> SupportedRange barRange \<and> retries \<le> 0
          \<and> first_reply net symbols barRange limit w = Reply code status (Some bd) (Some resp)
          \<and> code \<noteq> StatusTooManyRequests \<and> code \<noteq> StatusUnavailableForLegalReasons
          \<and> \<not> (barRange = ''1d'' \<and> has_nil_value resp)
          \<and> live_symbols w symbols = s0 # rest
          \<and> null_chart (if barRange = ''1d'' then intraday_to_chart resp else resp) s0"
  then show "fst (GetBars net symbols barRange limit retries w) = Inl RetryCountExceeded"
    by (intro GetBars_null_chart_exhausted
          [where code = code and status = status and bd = bd and resp = resp
             and ?s0.0 = s0 and rest = rest]) simp_all
qed

theorem GetBars_terminates_witness:
  "GetBars_rel (always_429, [''AAPL''], ''1d'', None, 2, world0\<lparr>calls := 1\<rparr>)
               (always_429, [''AAPL'', ''OTCX''], ''1d'', None, 3, world0)
   \<and> retry_or_split (always_429, [''AAPL'', ''OTCX''], ''1d'', None, 3, world0)
                     (always_429, [''AAPL''], ''1d'', None, 2, world0\<lparr>calls := 1\<rparr>)
   \<and> GetBars_measure (always_429, [''AAPL''], ''1d'', None, 2, world0\<lparr>calls := 1\<rparr>) = (1, 2)
   \<and> GetBars_measure (always_429, [''AAPL'', ''OTCX''], ''1d'', None, 3, world0) = (2, 3)
   \<and> fst (GetBars always_429 [''AAPL'', ''OTCX''] ''1d'' None 0 world0) = Inl RetryCountExceeded"
proof -
  let ?a = "(always_429, [''AAPL'', ''OTCX''], ''1d'', None, 3 :: int, world0)"
  let ?b = "(always_429, [''AAPL''], ''1d'', None, 2 :: int, world0\<lparr>calls := 1\<rparr>)"
  have "GetBars_rel
          (always_429, filter (\<lambda>sym. sym \<notin> symbolsExcluded world0) [''AAPL'', ''OTCX''],
           ''1d'', None, 3 - 1, world0\<lparr>calls := calls world0 + 1\<rparr>) ?a"
    by (rule GetBars_rel.intros(1)
          [where ?x21.0 = 429 and ?x22.0 = "''429 Too Many Requests''" and ?x23.0 = "Some []"
             and ?x24.0 = None])
       (simp_all add: SupportedRange_def always_429_def StatusTooManyRequests_def)
  then have rel: "GetBars_rel ?b ?a"
    by (simp add: world0_def)
  note inst = GetBars_terminates
      [where a = ?a and b = ?b and net = always_429 and symbols = "[''AAPL'', ''OTCX'']"
         and barRange = "''1d''" and limit = None and retries = 0 and w = world0
         and status = "''429 Too Many Requests''" and body = "Some []" and js = None]
  from inst rel have "retry_or_split ?a ?b"
    by blast
  moreover have "fst (GetBars always_429 [''AAPL'', ''OTCX''] ''1d'' None 0 world0)
                   = Inl RetryCountExceeded"
    using inst
    by (simp add: SupportedRange_def first_reply_def always_429_def StatusTooManyRequests_def)
  moreover have "GetBars_measure ?b = (1, 2)" and "GetBars_measure ?a = (2, 3)"
    by (simp_all add: GetBars_measure_def)
  ultimately show ?thesis
    using rel by simp
qed

section \<open>Properties of the start command\<close>

lemma construct_frontends_writers:
  assumes "construct_frontends env config = Inr (rpcw, grpcw, client)"
  shows "rpcw = (if MasterHost (Replication config) \<noteq> [] then ErrorWriter else Writer)"
    and "grpcw = (if MasterHost (Replication config) \<noteq> [] then ErrorWriter else Writer)"
  using assms
  by (auto simp: construct_frontends_def split: if_splits option.splits)

lemma executeStart_writers:
  assumes "executeStart env config = Inr srv"
  shows "rpc_writer srv = (if MasterHost (Replication config) \<noteq> [] then ErrorWriter else Writer)"
    and "grpc_writer srv = (if MasterHost (Replication config) \<noteq> [] then ErrorWriter else Writer)"
proof -
  from assms obtain rpcw grpcw client
    where cf: "construct_frontends env config = Inr (rpcw, grpcw, client)"
      and "rpc_writer srv = rpcw" and "grpc_writer srv = grpcw"
    by (auto simp: executeStart_def split: if_splits sum.splits)
  then show "rpc_writer srv = (if MasterHost (Replication config) \<noteq> [] then ErrorWriter else Writer)"
    and "grpc_writer srv = (if MasterHost (Replication config) \<noteq> [] then ErrorWriter else Writer)"
    using construct_frontends_writers [OF cf] by simp_all
qed

lemma construct_frontends_cases:
  "MasterHost (Replication config) = [] \<Longrightarrow>
     construct_frontends env config = Inr (Writer, Writer, False)"
  "MasterHost (Replication config) \<noteq> [] \<Longrightarrow> initReplicationClient env config = None \<Longrightarrow>
     construct_frontends env config = Inr (ErrorWriter, ErrorWriter, True)"
  "MasterHost (Replication config) \<noteq> [] \<Longrightarrow> initReplicationClient env config = Some e \<Longrightarrow>
     construct_frontends env config = Inl e"
  by (simp_all add: construct_frontends_def)

lemma executeStart_succeeds:
  assumes "readFile_ok env" and "parse_ok env"
    and "init_replication_server env config = Inr rs"
    and "newInstanceSetup_ok env" and "newWriter_ok env"
    and "construct_frontends env config = Inr (rpcw, grpcw, client)"
    and "GRPCListenURL config = [] \<or> grpcListen_ok env"
  shows "executeStart env config
           = Inr \<lparr> rpc_writer = rpcw, grpc_writer = grpcw, replication_server = rs,
                   replication_client = client, utility_api = (UtilitiesURL config \<noteq> []),
                   grpc_listening = (GRPCListenURL config \<noteq> []), queryable = 1 \<rparr>"
  using assms by (auto simp: executeStart_def)

text \<open>
  Claim C3.  When \<^verbatim>\<open>Replication.MasterHost\<close> is not empty, \<^verbatim>\<open>executeStart\<close> starts
  the replication client and, unless that fails, constructs the RPC server and the gRPC
  service with the \<^verbatim>\<open>ErrorWriter\<close>, so that every external write through either of
  them is rejected with ReadOnlyReplica; when \<^verbatim>\<open>MasterHost\<close> is empty, it constructs
  both with the real writer, which then decides every write.  The server starts with
  these frontends whenever every other step of \<^verbatim>\<open>executeStart\<close> succeeds.
\<close>

theorem replica_frontends_reject_writes:
  "(construct_frontends env config = Inr (rpcw, grpcw, client) \<longrightarrow>
      (MasterHost (Replication config) \<noteq> [] \<longrightarrow> rpcw = ErrorWriter \<and> grpcw = ErrorWriter)
      \<and> (MasterHost (Replication config) = [] \<longrightarrow> rpcw = Writer \<and> grpcw = Writer))
   \<and> (executeStart env config = Inr srv \<longrightarrow>
        (MasterHost (Replication config) \<noteq> [] \<longrightarrow>
           rpc_writer srv = ErrorWriter \<and> grpc_writer srv = ErrorWriter
           \<and> rpc_Write real srv csm = ReadOnlyReplica
           \<and> grpc_Write real srv csm = ReadOnlyReplica)
        \<and> (MasterHost (Replication config) = [] \<longrightarrow>
             rpc_writer srv = Writer \<and> grpc_writer srv = Writer
             \<and> rpc_Write real srv csm = real csm
             \<and> grpc_Write real srv csm = real csm))
   \<and> (MasterHost (Replication config) = [] \<longrightarrow>
        construct_frontends env config = Inr (Writer, Writer, False))
   \<and> (MasterHost (Replication config) \<noteq> [] \<and> initReplicationClient env config = None \<longrightarrow>
        construct_frontends env config = Inr (ErrorWriter, ErrorWriter, True))
   \<and> (MasterHost (Replication config) \<noteq> [] \<and> initReplicationClient env config = Some e \<longrightarrow>
        construct_frontends env config = Inl e)
   \<and> (readFile_ok env \<and> parse_ok env \<and> init_replication_server env config = Inr rs
        \<and> newInstanceSetup_ok env \<and> newWriter_ok env
        \<and> construct_frontends env config = Inr (rpcw, grpcw, client)
        \<and> (GRPCListenURL config = [] \<or> grpcListen_ok env) \<longrightarrow>
        executeStart env config
          = Inr \<lparr> rpc_writer = rpcw, grpc_writer = grpcw, replication_server = rs,
                  replication_client = client, utility_api = (UtilitiesURL config \<noteq> []),
                  grpc_listening = (GRPCListenURL config \<noteq> []), queryable = 1 \<rparr>)"
proof (intro conjI impI)
  assume cf: "construct_frontends env config = Inr (rpcw, grpcw, client)"
  {
    assume "MasterHost (Replication config) \<noteq> []"
    with construct_frontends_writers [OF cf]
    show "rpcw = ErrorWriter" and "grpcw = ErrorWriter" by simp_all
  }
  {
    assume "MasterHost (Replication config) = []"
    with construct_frontends_writers [OF cf]
    show "rpcw = Writer" and "grpcw = Writer" by simp_all
  }
next
  assume start: "executeStart env config = Inr srv"
  {
    assume "MasterHost (Replication config) \<noteq> []"
    with executeStart_writers [OF start]
    show "rpc_writer srv = ErrorWriter" and "grpc_writer srv = ErrorWriter"
      and "rpc_Write real srv csm = ReadOnlyReplica"
      and "grpc_Write real srv csm = ReadOnlyReplica"
      by (simp_all add: rpc_Write_def grpc_Write_def WriteCSM_def)
  }
  {
    assume "MasterHost (Replication config) = []"
    with executeStart_writers [OF start]
    show "rpc_writer srv = Writer" and "grpc_writer srv = Writer"
      and "rpc_Write real srv csm = real csm"
      and "grpc_Write real srv csm = real csm"
      by (simp_all add: rpc_Write_def grpc_Write_def WriteCSM_def)
  }
next
  assume "MasterHost (Replication config) = []"
  then show "construct_frontends env config = Inr (Writer, Writer, False)"
    by (rule construct_frontends_cases(1))
next
  assume "MasterHost (Replication config) \<noteq> [] \<and> initReplicationClient env config = None"
  then show "construct_frontends env config = Inr (ErrorWriter, ErrorWriter, True)"
    by (simp add: construct_frontends_cases(2))
next
  assume "MasterHost (Replication config) \<noteq> [] \<and> initReplicationClient env config = Some e"
  then show "construct_frontends env config = Inl e"
    by (simp add: construct_frontends_cases(3))
next
  assume "readFile_ok env \<and> parse_ok env \<and> init_replication_server env config = Inr rs
        \<and> newInstanceSetup_ok env \<and> newWriter_ok env
        \<and> construct_frontends env config = Inr (rpcw, grpcw, client)
        \<and> (GRPCListenURL config = [] \<or> grpcListen_ok env)"
  then show "executeStart env config
          = Inr \<lparr> rpc_writer = rpcw, grpc_writer = grpcw, replication_server = rs,
                  replication_client = client, utility_api = (UtilitiesURL config \<noteq> []),
                  grpc_listening = (GRPCListenURL config \<noteq> []), queryable = 1 \<rparr>"
    by (intro executeStart_succeeds) simp_all
qed

theorem replica_frontends_reject_writes_witness:
  "MasterHost (Replication replica_config) \<noteq> []
   \<and> initReplicationClient all_ok replica_config = None
   \<and> construct_frontends all_ok replica_config = Inr (ErrorWriter, ErrorWriter, True)
   \<and> executeStart all_ok replica_config
       = Inr \<lparr> rpc_writer = ErrorWriter, grpc_writer = ErrorWriter, replication_server = False,
               replication_client = True, utility_api = False, grpc_listening = True,
               queryable = 1 \<rparr>
   \<and> rpc_Write accept_all
        \<lparr> rpc_writer = ErrorWriter, grpc_writer = ErrorWriter, replication_server = False,
          replication_client = True, utility_api = False, grpc_listening = True,
          queryable = 1 \<rparr> () = ReadOnlyReplica
   \<and> grpc_Write accept_all
        \<lparr> rpc_writer = ErrorWriter, grpc_writer = ErrorWriter, replication_server = False,
          replication_client = True, utility_api = False, grpc_listening = True,
          queryable = 1 \<rparr> () = ReadOnlyReplica
   \<and> MasterHost (Replication master_config) = []
   \<and> construct_frontends all_ok master_config = Inr (Writer, Writer, False)
   \<and> executeStart all_ok master_config
       = Inr \<lparr> rpc_writer = Writer, grpc_writer = Writer, replication_server = True,
               replication_client = False, utility_api = False, grpc_listening = True,
               queryable = 1 \<rparr>
   \<and> rpc_Write accept_all
        \<lparr> rpc_writer = Writer, grpc_writer = Writer, replication_server = True,
          replication_client = False, utility_api = False, grpc_listening = True,
          queryable = 1 \<rparr> () = WriteOk
   \<and> grpc_Write accept_all
        \<lparr> rpc_writer = Writer, grpc_writer = Writer, replication_server = True,
          replication_client = False, utility_api = False, grpc_listening = True,
          queryable = 1 \<rparr> () = WriteOk"
proof -
  let ?replica = "\<lparr> rpc_writer = ErrorWriter, grpc_writer = ErrorWriter,
             replication_server = False, replication_client = True, utility_api = False,
             grpc_listening = True, queryable = 1 \<rparr>"
  let ?master = "\<lparr> rpc_writer = Writer, grpc_writer = Writer,
             replication_server = True, replication_client = False, utility_api = False,
             grpc_listening = True, queryable = 1 \<rparr>"
  note replica = replica_frontends_reject_writes
      [of all_ok replica_config ErrorWriter ErrorWriter True ?replica accept_all "()" _ False]
  note master = replica_frontends_reject_writes
      [of all_ok master_config Writer Writer False ?master accept_all "()" _ True]
  have host: "MasterHost (Replication replica_config) \<noteq> []"
    and client: "initReplicationClient all_ok replica_config = None"
    and no_server: "init_replication_server all_ok replica_config = Inr False"
    by (simp_all add: replica_config_def initReplicationClient_def all_ok_def
        init_replication_server_def)
  have no_host: "MasterHost (Replication master_config) = []"
    and server: "init_replication_server all_ok master_config = Inr True"
    by (simp_all add: master_config_def all_ok_def init_replication_server_def)
  have ok: "readFile_ok all_ok" "parse_ok all_ok" "newInstanceSetup_ok all_ok"
    "newWriter_ok all_ok" "grpcListen_ok all_ok"
    by (simp_all add: all_ok_def)
  have urls: "UtilitiesURL replica_config = []" "GRPCListenURL replica_config \<noteq> []"
    "UtilitiesURL master_config = []" "GRPCListenURL master_config \<noteq> []"
    by (simp_all add: replica_config_def master_config_def)
  from replica host client
  have r_fronts: "construct_frontends all_ok replica_config = Inr (ErrorWriter, ErrorWriter, True)"
    by blast
  with replica no_server ok urls
  have r_start: "executeStart all_ok replica_config = Inr ?replica"
    by simp
  with replica host
  have r_writes: "rpc_Write accept_all ?replica () = ReadOnlyReplica"
    "grpc_Write accept_all ?replica () = ReadOnlyReplica"
    by blast+
  from master no_host
  have m_fronts: "construct_frontends all_ok master_config = Inr (Writer, Writer, False)"
    by blast
  with master server ok urls
  have m_start: "executeStart all_ok master_config = Inr ?master"
    by simp
  with master no_host
  have "rpc_Write accept_all ?master () = accept_all ()"
    "grpc_Write accept_all ?master () = accept_all ()"
    by blast+
  then have m_writes: "rpc_Write accept_all ?master () = WriteOk"
    "grpc_Write accept_all ?master () = WriteOk"
    by (simp_all add: accept_all_def)
  from host client r_fronts r_start r_writes no_host m_fronts m_start m_writes
  show ?thesis by simp
qed

text \<open>
  Claim C4, as stated: on \<^verbatim>\<open>SIGINT\<close> the queryable flag is flipped before the servers
  are stopped.  The handler does the opposite: in the trace of a server with
  replication enabled and a grace period of 5, \<^verbatim>\<open>GracefulStop\<close> comes first and the
  store to \<^verbatim>\<open>frontend.Queryable\<close> fourth.
\<close>

theorem shutdown_order_counterexample:
  "\<not> spec_shutdown_order 5 (signal_loop master_handler [SIGINT])"
  by (simp add: spec_shutdown_order_def precedes_def on_terminate_def shutdown_def
      master_handler_def)

lemma first_index_on_terminate:
  "first_index GrpcGracefulStop (on_terminate h) = Some 0"
  "first_index GlobalCancel (on_terminate h) = Some 1"
  "first_index (StoreQueryable 0) (on_terminate h) = Some (if has_replication_server h then 3 else 2)"
  "first_index (Sleep (grace_period h)) (on_terminate h) = Some (if has_replication_server h then 4 else 3)"
  "first_index WalWait (on_terminate h)
     = Some ((if has_replication_server h then 5 else 4) + (if has_shutdownPending h then 1 else 0))"
  "first_index (Exit 0) (on_terminate h)
     = Some ((if has_replication_server h then 6 else 5) + (if has_shutdownPending h then 1 else 0))"
  by (simp_all add: on_terminate_def shutdown_def)

lemma no_http_close: "HttpServerClose \<notin> set (signal_loop h sigs)"
  by (induction h sigs rule: signal_loop.induct) (simp_all add: on_terminate_def shutdown_def)

lemma on_terminate_trace:
  "on_terminate h =
     (if has_replication_server h then
        (if has_shutdownPending h
         then [GrpcGracefulStop, GlobalCancel, ReplicationStop, StoreQueryable 0,
               Sleep (grace_period h), SetShutdownPending, WalWait, Exit 0]
         else [GrpcGracefulStop, GlobalCancel, ReplicationStop, StoreQueryable 0,
               Sleep (grace_period h), WalWait, Exit 0])
      else
        (if has_shutdownPending h
         then [GrpcGracefulStop, GlobalCancel, StoreQueryable 0,
               Sleep (grace_period h), SetShutdownPending, WalWait, Exit 0]
         else [GrpcGracefulStop, GlobalCancel, StoreQueryable 0,
               Sleep (grace_period h), WalWait, Exit 0]))"
  by (simp add: on_terminate_def shutdown_def)

lemma optional_steps:
  "has_replication_server h \<Longrightarrow>
     precedes GlobalCancel ReplicationStop (on_terminate h)
     \<and> precedes ReplicationStop (StoreQueryable 0) (on_terminate h)"
  "\<not> has_replication_server h \<Longrightarrow> ReplicationStop \<notin> set (on_terminate h)"
  "has_shutdownPending h \<Longrightarrow>
     precedes (Sleep (grace_period h)) SetShutdownPending (on_terminate h)
     \<and> precedes SetShutdownPending WalWait (on_terminate h)"
  "\<not> has_shutdownPending h \<Longrightarrow> SetShutdownPending \<notin> set (on_terminate h)"
  by (simp_all add: on_terminate_trace precedes_def)


text \<open>
  Claim C4, amended.  On \<^verbatim>\<open>SIGINT\<close> or \<^verbatim>\<open>SIGTERM\<close>, received while the handler is
  still running (after a \<^verbatim>\<open>SIGUSR1\<close> whose stack dump fails it has returned, and no
  later signal does anything), the handler performs exactly these steps, in this order:
  it stops the gRPC API server gracefully; cancels the global context; stops the
  replication server, if and only if there is one; then stores 0 in the queryable
  flag; sleeps for the grace period; sets \<^verbatim>\<open>shutdownPending\<close>, if and only if it is not
  nil; waits for the WAL wait group; and exits with status 0.  The queryable flag is
  not flipped before the servers are stopped, and the handler never closes the HTTP
  server of \<^verbatim>\<open>/rpc\<close>.
\<close>

theorem shutdown_order:
  "signal_loop h (SIGINT # ss) = on_terminate h
   \<and> signal_loop h (SIGTERM # ss) = on_terminate h
   \<and> (pprof_ok h \<longrightarrow> signal_loop h (SIGUSR1 # ss) = DumpStacks # signal_loop h ss)
   \<and> (\<not> pprof_ok h \<longrightarrow> signal_loop h (SIGUSR1 # ss) = [DumpStacks])
   \<and> on_terminate h =
       (if has_replication_server h then
          (if has_shutdownPending h
           then [GrpcGracefulStop, GlobalCancel, ReplicationStop, StoreQueryable 0,
                 Sleep (grace_period h), SetShutdownPending, WalWait, Exit 0]
           else [GrpcGracefulStop, GlobalCancel, ReplicationStop, StoreQueryable 0,
                 Sleep (grace_period h), WalWait, Exit 0])
        else
          (if has_shutdownPending h
           then [GrpcGracefulStop, GlobalCancel, StoreQueryable 0,
                 Sleep (grace_period h), SetShutdownPending, WalWait, Exit 0]
           else [GrpcGracefulStop, GlobalCancel, StoreQueryable 0,
                 Sleep (grace_period h), WalWait, Exit 0]))
   \<and> code_shutdown_order (grace_period h) (on_terminate h)
   \<and> (has_replication_server h \<longrightarrow>
        precedes GlobalCancel ReplicationStop (on_terminate h)
        \<and> precedes ReplicationStop (StoreQueryable 0) (on_terminate h))
   \<and> (\<not> has_replication_server h \<longrightarrow> ReplicationStop \<notin> set (on_terminate h))
   \<and> (has_shutdownPending h \<longrightarrow>
        precedes (Sleep (grace_period h)) SetShutdownPending (on_terminate h)
        \<and> precedes SetShutdownPending WalWait (on_terminate h))
   \<and> (\<not> has_shutdownPending h \<longrightarrow> SetShutdownPending \<notin> set (on_terminate h))
   \<and> \<not> precedes (StoreQueryable 0) GrpcGracefulStop (on_terminate h)
   \<and> last (on_terminate h) = Exit 0
   \<and> HttpServerClose \<notin> set (signal_loop h sigs)"
proof (intro conjI)
  show "on_terminate h =
       (if has_replication_server h then
          (if has_shutdownPending h
           then [GrpcGracefulStop, GlobalCancel, ReplicationStop, StoreQueryable 0,
                 Sleep (grace_period h), SetShutdownPending, WalWait, Exit 0]
           else [GrpcGracefulStop, GlobalCancel, ReplicationStop, StoreQueryable 0,
                 Sleep (grace_period h), WalWait, Exit 0])
        else
          (if has_shutdownPending h
           then [GrpcGracefulStop, GlobalCancel, StoreQueryable 0,
                 Sleep (grace_period h), SetShutdownPending, WalWait, Exit 0]
           else [GrpcGracefulStop, GlobalCancel, StoreQueryable 0,
                 Sleep (grace_period h), WalWait, Exit 0]))"
    by (rule on_terminate_trace)
  show "code_shutdown_order (grace_period h) (on_terminate h)"
    by (simp add: code_shutdown_order_def precedes_def first_index_on_terminate)
  show "\<not> precedes (StoreQueryable 0) GrpcGracefulStop (on_terminate h)"
    by (simp add: precedes_def first_index_on_terminate)
  show "last (on_terminate h) = Exit 0"
    by (simp add: on_terminate_def shutdown_def)
  show "HttpServerClose \<notin> set (signal_loop h sigs)"
    by (rule no_http_close)
qed (simp_all add: optional_steps)

theorem shutdown_order_witness:
  "signal_loop master_handler [SIGUSR1, SIGTERM, SIGINT]
     = [DumpStacks, GrpcGracefulStop, GlobalCancel, ReplicationStop, StoreQueryable 0, Sleep 5,
        SetShutdownPending, WalWait, Exit 0]
   \<and> code_shutdown_order 5 (on_terminate master_handler)
   \<and> precedes GlobalCancel ReplicationStop (on_terminate master_handler)
   \<and> precedes ReplicationStop (StoreQueryable 0) (on_terminate master_handler)
   \<and> precedes (Sleep 5) SetShutdownPending (on_terminate master_handler)
   \<and> precedes SetShutdownPending WalWait (on_terminate master_handler)
   \<and> signal_loop plain_handler [SIGUSR1, SIGTERM] = [DumpStacks]
   \<and> signal_loop plain_handler [SIGTERM]
       = [GrpcGracefulStop, GlobalCancel, StoreQueryable 0, Sleep 0, WalWait, Exit 0]
   \<and> ReplicationStop \<notin> set (on_terminate plain_handler)
   \<and> SetShutdownPending \<notin> set (on_terminate plain_handler)"
proof -
  have m: "has_replication_server master_handler" "has_shutdownPending master_handler"
    "pprof_ok master_handler" "grace_period master_handler = 5"
    by (simp_all add: master_handler_def)
  have p: "\<not> has_replication_server plain_handler" "\<not> has_shutdownPending plain_handler"
    "\<not> pprof_ok plain_handler" "grace_period plain_handler = 0"
    by (simp_all add: plain_handler_def)
  note master1 = shutdown_order [of master_handler "[SIGTERM, SIGINT]" "[]"]
  note master2 = shutdown_order [of master_handler "[SIGINT]" "[]"]
  note plain1 = shutdown_order [of plain_handler "[SIGTERM]" "[]"]
  note plain2 = shutdown_order [of plain_handler "[]" "[]"]
  have "signal_loop master_handler [SIGUSR1, SIGTERM, SIGINT]
          = DumpStacks # on_terminate master_handler"
    using master1 master2 m by simp
  moreover have "on_terminate master_handler
          = [GrpcGracefulStop, GlobalCancel, ReplicationStop, StoreQueryable 0, Sleep 5,
             SetShutdownPending, WalWait, Exit 0]"
    using master2 m by simp
  moreover have "signal_loop plain_handler [SIGUSR1, SIGTERM] = [DumpStacks]"
    using plain1 p by blast
  moreover have "signal_loop plain_handler [SIGTERM]
          = [GrpcGracefulStop, GlobalCancel, StoreQueryable 0, Sleep 0, WalWait, Exit 0]"
    using plain2 p by simp
  moreover have "code_shutdown_order 5 (on_terminate master_handler)"
    "precedes GlobalCancel ReplicationStop (on_terminate master_handler)"
    "precedes ReplicationStop (StoreQueryable 0) (on_terminate master_handler)"
    "precedes (Sleep 5) SetShutdownPending (on_terminate master_handler)"
    "precedes SetShutdownPending WalWait (on_terminate master_handler)"
    using master2 [unfolded m(4)] m(1,2) by blast+
  moreover have "ReplicationStop \<notin> set (on_terminate plain_handler)"
    "SetShutdownPending \<notin> set (on_terminate plain_handler)"
    using plain2 p by blast+
  ultimately show ?thesis by simp
qed

section \<open>Properties of the modelled query engine\<close>

lemma startOfYear_values:
  "startOfYear 1970 = 0"
  "startOfYear 2000 = 946684800"
  "startOfYear 2001 - startOfYear 2000 = 366 * 86400"
  "january_2000 5 12 30 = 947075400"
  "january_2000 5 13 0 = 947077200"
  by (simp_all add: startOfYear_def january_2000_def)

lemma crossing_comparisons_empty:
  assumes "t1 \<le> t2"
  shows "\<forall>t. \<not> list_all (\<lambda>p. epoch_holds p t) [EpochLt t1, EpochGt t2]"
  using assms by auto

lemma within_raise_lo: "within (raise_lo a r) t \<longleftrightarrow> a \<le> t \<and> within r t"
  by (cases "(a, r)" rule: raise_lo.cases) auto

lemma within_lower_hi: "within (lower_hi b r) t \<longleftrightarrow> t \<le> b \<and> within r t"
  by (cases "(b, r)" rule: lower_hi.cases) auto

lemma within_tighten: "within (tighten p r) t \<longleftrightarrow> epoch_holds p t \<and> within r t"
  by (cases p) (auto simp: within_raise_lo within_lower_hi)

lemma within_normalize: "within (normalize ps) t \<longleftrightarrow> list_all (\<lambda>p. epoch_holds p t) ps"
  by (induction ps) (simp_all add: normalize_def within_tighten)

lemma possible_has_point:
  assumes "\<not> impossible r"
  shows "\<exists>t. within r t"
proof (cases r)
  case (Pair l h)
  show ?thesis
  proof (cases l)
    case None
    then show ?thesis using Pair by (cases h) (auto intro: exI [of _ 0])
  next
    case (Some a)
    then have "within r a" using Pair assms by (cases h) auto
    then show ?thesis ..
  qed
qed

lemma empty_denotation_impossible:
  assumes "\<forall>t. \<not> list_all (\<lambda>p. epoch_holds p t) ps"
  shows "impossible (normalize ps)"
proof (rule ccontr)
  assume "\<not> impossible (normalize ps)"
  then obtain t where "within (normalize ps) t"
    using possible_has_point by blast
  then have "list_all (\<lambda>p. epoch_holds p t) ps"
    by (simp add: within_normalize)
  with assms show False by blast
qed

text \<open>
  Claim C2.  When no second satisfies the comparisons on \<^verbatim>\<open>Epoch\<close> of a query (as
  for \<^verbatim>\<open>Epoch < t1 AND Epoch > t2\<close> with \<open>t1 \<le> t2\<close>), whatever its residual
  predicates, its projection, its bucket and the database are, \<^verbatim>\<open>Materialize\<close>
  returns no error but a column series of length 0, and the number of segment file
  reads is what it was.
\<close>

theorem empty_range_no_reads:
  assumes "\<forall>t. \<not> list_all (\<lambda>p. epoch_holds p t) (sel_epoch q)"
  shows "\<exists>cs. fst (Materialize aggs q db) = Inr cs \<and> Len cs = 0
              \<and> segment_reads (snd (Materialize aggs q db)) = segment_reads db"
  using empty_denotation_impossible [OF assms]
  by (simp add: Materialize_def)

theorem empty_range_no_reads_witness:
  "(\<forall>t. \<not> list_all (\<lambda>p. epoch_holds p t) (sel_epoch (impossible_query :: int select)))
   \<and> (\<exists>cs. fst (Materialize no_aggregates impossible_query (seed_db flat_prices)) = Inr cs
            \<and> Len cs = 0
            \<and> segment_reads (snd (Materialize no_aggregates impossible_query (seed_db flat_prices)))
                = 0)"
proof -
  have empty: "\<forall>t. \<not> list_all (\<lambda>p. epoch_holds p t) (sel_epoch (impossible_query :: int select))"
    by (simp add: impossible_query_def january_2000_def)
  from empty_range_no_reads [OF empty, of no_aggregates "seed_db flat_prices"]
  show ?thesis using empty by (simp add: seed_db_def)
qed

lemma map_filter_all_Some:
  assumes "\<And>x. x \<in> set xs \<Longrightarrow> f x = Some (g x)"
  shows "List.map_filter f xs = map g xs"
  using assms by (induction xs) (simp_all add: List.map_filter_def)

lemma read_seed_day:
  assumes "4 * 1440 \<le> a" and "b < 5 * 1440"
  shows "read_slots (seed_segment gen, a, b)
           = map (\<lambda>slot. (startOfYear 2000 + 60 * slot, map (gen slot) OHLCV)) [a..b]"
  unfolding read_slots_def fst_conv snd_conv
  by (rule map_filter_all_Some) (use assms in \<open>simp add: seed_segment_def\<close>)

lemma point_query_bounds:
  "normalize (sel_epoch (point_query :: 'v select)) = (Some 947075401, Some 947077199)"
  by (simp add: point_query_def normalize_def january_2000_def startOfYear_def)

lemma seed_catalog:
  "catalog (seed_db gen) ''AAPL/1Min/OHLCV'' = Some (seed_bucket gen)"
  by (simp add: seed_db_def seed_bucket_def)

lemma point_query_plan:
  "slot_plan (seed_bucket gen) (Some 947075401, Some 947077199) = [(seed_segment gen, 6511, 6539)]"
  by (simp add: slot_plan_def year_slots_def startOfYear_def List.map_filter_def seed_bucket_def)

lemma seed_columns:
  "build_columns OHLCV (map (\<lambda>slot. (e slot, map (gen slot) OHLCV)) slots)
      [''Epoch'', ''Open'', ''High'', ''Low'', ''Close'']
     = Inr [(''Epoch'', Int64s (map e slots)),
            (''Open'', Values (map (\<lambda>slot. gen slot ''Open'') slots)),
            (''High'', Values (map (\<lambda>slot. gen slot ''High'') slots)),
            (''Low'', Values (map (\<lambda>slot. gen slot ''Low'') slots)),
            (''Close'', Values (map (\<lambda>slot. gen slot ''Close'') slots))]"
  by (simp add: column_of_def OHLCV_def list_all_iff comp_def)

lemma point_query_result:
  "Materialize aggs point_query (seed_db gen)
     = (Inr [(''Epoch'', Int64s (map (\<lambda>slot. startOfYear 2000 + 60 * slot) [6511..6539])),
             (''Open'', Values (map (\<lambda>slot. gen slot ''Open'') [6511..6539])),
             (''High'', Values (map (\<lambda>slot. gen slot ''High'') [6511..6539])),
             (''Low'', Values (map (\<lambda>slot. gen slot ''Low'') [6511..6539])),
             (''Close'', Values (map (\<lambda>slot. gen slot ''Close'') [6511..6539]))],
        (seed_db gen)\<lparr>segment_reads := 1\<rparr>)"
proof -
  have rows: "read_slots (seed_segment gen, 6511, 6539)
     = map (\<lambda>slot. (startOfYear 2000 + 60 * slot, map (gen slot) OHLCV)) [6511..6539]"
    by (rule read_seed_day) simp_all
  have sel: "sel_projection (point_query :: 'v select) = Columns [''Epoch'', ''Open'', ''High'', ''Low'', ''Close'']"
    "sel_from (point_query :: 'v select) = ''AAPL/1Min/OHLCV''"
    "sel_residual (point_query :: 'v select) = []"
    by (simp_all add: point_query_def)
  have names: "projected_names OHLCV
                 (Columns [''Epoch'', ''Open'', ''High'', ''Low'', ''Close''])
               = [''Epoch'', ''Open'', ''High'', ''Low'', ''Close'']"
    by (simp add: projected_names_def)
  have cols: "schema_columns (seed_bucket gen) = OHLCV"
    by (simp add: seed_bucket_def)
  have reads: "segment_reads (seed_db gen) = 0"
    by (simp add: seed_db_def)
  show ?thesis
    unfolding Materialize_def point_query_bounds Let_def sel seed_catalog
    by (simp add: point_query_plan rows names cols seed_columns finish_def reads
        del: upto_rec_numeral build_columns.simps)
qed

lemma minute_marks_increase:
  "sorted_wrt (<) (map (\<lambda>slot. startOfYear 2000 + 60 * slot) [a..b])"
  by (simp add: sorted_wrt_map sorted_wrt_iff_nth_less del: upto_rec_numeral)

lemma minute_marks_shift:
  "map (\<lambda>slot. startOfYear 2000 + 60 * slot) [6511..6539]
     = map (\<lambda>m. january_2000 5 12 m) [31..59]"
  by (simp add: january_2000_def)

text \<open>
  Claim C1.  Over the bucket \<^verbatim>\<open>AAPL/1Min/OHLCV\<close> seeded with one record per minute
  over 2000-01-05, whatever the values of the records are, the query \<^verbatim>\<open>SELECT Epoch,
  Open, High, Low, Close ... WHERE Epoch BETWEEN '2000-01-05-12:30' AND
  '2000-01-05-13:00'\<close> materializes without error a column series of exactly 29 rows in
  ascending \<^verbatim>\<open>Epoch\<close>: the minutes 12:31 to 12:59.
\<close>

theorem point_query_29_rows:
  "\<exists>cs db'. Materialize aggs point_query (seed_db gen) = (Inr cs, db')
      \<and> Len cs = 29
      \<and> sorted_wrt (<) (epochs_of cs)
      \<and> epochs_of cs = map (\<lambda>m. january_2000 5 12 m) [31..59]
      \<and> segment_reads db' = 1"
proof -
  let ?es = "map (\<lambda>slot. startOfYear 2000 + 60 * slot) [6511..6539]"
  obtain cs db' where res: "Materialize aggs point_query (seed_db gen) = (Inr cs, db')"
    and ep: "epochs_of cs = ?es" and len: "Len cs = length ?es" and rd: "segment_reads db' = 1"
    unfolding point_query_result
    by (simp add: epochs_of_def del: upto_rec_numeral)
  have "Len cs = 29"
    using len by (simp del: upto_rec_numeral)
  moreover have "sorted_wrt (<) (epochs_of cs)"
    unfolding ep by (rule minute_marks_increase)
  moreover have "epochs_of cs = map (\<lambda>m. january_2000 5 12 m) [31..59]"
    unfolding ep by (rule minute_marks_shift)
  ultimately show ?thesis
    using res rd by blast
qed


end
